theory Spec2Isabelle
  imports Main "HOL-Library.Word" "HOL-Library.Sublist"
begin

section \<open>JavaScript strings\<close>

text \<open>
  The worker is JavaScript: a string is a sequence of UTF-16 code units, and
  \<^verbatim>\<open>includes\<close>, \<^verbatim>\<open>split\<close>, \<^verbatim>\<open>trim\<close> and \<^verbatim>\<open>join\<close> work on code units.
  ASCII literals of the source are written \<open>ascii ''...''\<close>; the Chinese
  literals are written as their code units, with their meaning beside them.
\<close>

type_synonym jschar = "16 word"
type_synonym jsstring = "jschar list"

definition ascii :: "string \<Rightarrow> jsstring" where
  "ascii s = map of_char s"

text \<open>
  \<^verbatim>\<open>String.prototype.trim\<close> strips WhiteSpace and LineTerminator code units
  (ECMA-262: TAB, VT, FF, SP, NBSP, ZWNBSP, the Unicode space separators, LF, CR, LS, PS).
\<close>

definition isWhiteSpace :: "jschar \<Rightarrow> bool" where
  "isWhiteSpace c \<longleftrightarrow>
     c \<in> set [0x0009, 0x000A, 0x000B, 0x000C, 0x000D, 0x0020, 0x00A0, 0x1680,
              0x2000, 0x2001, 0x2002, 0x2003, 0x2004, 0x2005, 0x2006, 0x2007,
              0x2008, 0x2009, 0x200A, 0x2028, 0x2029, 0x202F, 0x205F, 0x3000, 0xFEFF]"

definition trim :: "jsstring \<Rightarrow> jsstring" where
  "trim s = rev (dropWhile isWhiteSpace (rev (dropWhile isWhiteSpace s)))"

text \<open>
  \<^verbatim>\<open>s.split(sep)\<close> for a separator of one code unit: the pieces between the
  separators, \<^verbatim>\<open>"".split(",")\<close> being \<^verbatim>\<open>[""]\<close>.
\<close>

fun split_on :: "jschar \<Rightarrow> jsstring \<Rightarrow> jsstring list" where
  "split_on sep [] = [[]]"
| "split_on sep (c # cs) =
     (if c = sep then [] # split_on sep cs
      else (let r = split_on sep cs in (c # hd r) # tl r))"

text \<open>\<^verbatim>\<open>parts.join(sep)\<close> on an array of strings.\<close>

fun join :: "jsstring \<Rightarrow> jsstring list \<Rightarrow> jsstring" where
  "join sep [] = []"
| "join sep [x] = x"
| "join sep (x # y # ys) = x @ sep @ join sep (y # ys)"

text \<open>\<^verbatim>\<open>s.includes(t)\<close>: \<open>t\<close> occurs in \<open>s\<close> as a run of consecutive code units.\<close>

fun str_includes :: "jsstring \<Rightarrow> jsstring \<Rightarrow> bool" where
  "str_includes [] t = (t = [])"
| "str_includes (c # cs) t = (prefix t (c # cs) \<or> str_includes cs t)"

section \<open>Thrown values\<close>

text \<open>
  A thrown value is an \<^verbatim>\<open>Error\<close> object: its \<^verbatim>\<open>name\<close> and its \<^verbatim>\<open>message\<close>.
  \<open>exn_text\<close> is \<^verbatim>\<open>${err.message || err}\<close>: the message when it is not empty,
  otherwise \<^verbatim>\<open>String(err)\<close>, which for an empty message is the name.
  \<open>conversion_TypeError\<close> is what \<^verbatim>\<open>String\<close>, \<^verbatim>\<open>join\<close> and \<^verbatim>\<open>new Error\<close> throw for an
  object that has no primitive value, with the message of V8, the engine of both
  Cloudflare Workers and Node.js.
\<close>

record exn =
  ename :: jsstring
  emessage :: jsstring

definition new_Error :: "jsstring \<Rightarrow> exn" where
  "new_Error m = \<lparr>ename = ascii ''Error'', emessage = m\<rparr>"

definition exn_text :: "exn \<Rightarrow> jsstring" where
  "exn_text err = (if emessage err \<noteq> [] then emessage err else ename err)"

definition conversion_TypeError :: exn where
  "conversion_TypeError =
     \<lparr>ename = ascii ''TypeError'', emessage = ascii ''Cannot convert object to primitive value''\<rparr>"

section \<open>JavaScript values read from JSON\<close>

text \<open>
  The values the worker reads out of responses. \<open>JUndefined\<close> is what a missing
  property and optional chaining on \<^verbatim>\<open>null\<close>/\<^verbatim>\<open>undefined\<close> give. A number is
  a double; the worker only renders numbers with \<^verbatim>\<open>String\<close>, tests their truthiness
  and compares them with \<^verbatim>\<open>0\<close>, so a number is kept as the text \<^verbatim>\<open>String\<close> gives it
  (\<^verbatim>\<open>"7"\<close>, \<^verbatim>\<open>"0.5"\<close>, \<^verbatim>\<open>"1e+21"\<close>; both zeros are \<^verbatim>\<open>"0"\<close>): numbers with the same text
  are the same to the worker. An object is its list of members in document order;
  \<^verbatim>\<open>JSON.parse\<close> keeps the last member of a repeated key.
\<close>

datatype jsval =
    JUndefined
  | JNull
  | JBool bool
  | JNum jsstring
  | JStr jsstring
  | JArr "jsval list"
  | JObj "(jsstring \<times> jsval) list"

text \<open>
  \<^verbatim>\<open>v?.k\<close> for the property names the worker reads (\<^verbatim>\<open>meta\<close>, \<^verbatim>\<open>success\<close>,
  \<^verbatim>\<open>message\<close>, \<^verbatim>\<open>data\<close>, \<^verbatim>\<open>code\<close>, \<^verbatim>\<open>name\<close>, \<^verbatim>\<open>id\<close>, \<^verbatim>\<open>errcode\<close>, \<^verbatim>\<open>errmsg\<close>):
  none of them is defined on primitives or arrays.
\<close>

fun get :: "string \<Rightarrow> jsval \<Rightarrow> jsval" where
  "get k (JObj kvs) = (case map_of (rev kvs) (ascii k) of None \<Rightarrow> JUndefined | Some v \<Rightarrow> v)"
| "get k v = JUndefined"

text \<open>\<^verbatim>\<open>Boolean(v)\<close>, the truthiness that \<^verbatim>\<open>if\<close>, \<^verbatim>\<open>!\<close>, \<^verbatim>\<open>||\<close>, \<^verbatim>\<open>&&\<close> and \<^verbatim>\<open>filter(Boolean)\<close> test.\<close>

fun truthy :: "jsval \<Rightarrow> bool" where
  "truthy JUndefined = False"
| "truthy JNull = False"
| "truthy (JBool b) = b"
| "truthy (JNum n) = (n \<noteq> ascii ''0'' \<and> n \<noteq> ascii ''NaN'')"
| "truthy (JStr s) = (s \<noteq> [])"
| "truthy (JArr xs) = True"
| "truthy (JObj kvs) = True"

text \<open>\<^verbatim>\<open>a || b\<close> and \<^verbatim>\<open>a ?? b\<close>.\<close>

definition js_or :: "jsval \<Rightarrow> jsval \<Rightarrow> jsval" where
  "js_or a b = (if truthy a then a else b)"

fun nullish :: "jsval \<Rightarrow> bool" where
  "nullish JUndefined = True"
| "nullish JNull = True"
| "nullish v = False"

definition js_coalesce :: "jsval \<Rightarrow> jsval \<Rightarrow> jsval" where
  "js_coalesce a b = (if nullish a then b else a)"

text \<open>
  \<^verbatim>\<open>String(v)\<close>. A plain object renders as \<^verbatim>\<open>[object Object]\<close> through
  \<^verbatim>\<open>Object.prototype.toString\<close>; an object with a member \<^verbatim>\<open>toString\<close> of its own hides
  that method by a value that cannot be called, and the conversion throws a
  \<^verbatim>\<open>TypeError\<close>. An array renders as its elements joined by commas, \<^verbatim>\<open>null\<close> and
  \<^verbatim>\<open>undefined\<close> elements as the empty string, and throws when an element does.
  \<open>String_throws\<close> says whether the conversion throws, \<open>String_text\<close> is its result
  when it does not.
\<close>

fun String_throws :: "jsval \<Rightarrow> bool" where
  "String_throws (JArr xs) = list_ex String_throws xs"
| "String_throws (JObj kvs) = (map_of kvs (ascii ''toString'') \<noteq> None)"
| "String_throws v = False"

fun String_text :: "jsval \<Rightarrow> jsstring" where
  "String_text JUndefined = ascii ''undefined''"
| "String_text JNull = ascii ''null''"
| "String_text (JBool b) = (if b then ascii ''true'' else ascii ''false'')"
| "String_text (JNum n) = n"
| "String_text (JStr s) = s"
| "String_text (JArr xs) =
     join (ascii '','') (map (\<lambda>x. if nullish x then [] else String_text x) xs)"
| "String_text (JObj kvs) = ascii ''[object Object]''"

definition js_String :: "jsval \<Rightarrow> exn + jsstring" where
  "js_String v = (if String_throws v then Inl conversion_TypeError else Inr (String_text v))"

text \<open>\<^verbatim>\<open>Array.isArray(v)\<close>, and the elements of an array.\<close>

fun isArray :: "jsval \<Rightarrow> bool" where
  "isArray (JArr xs) = True"
| "isArray v = False"

fun elements :: "jsval \<Rightarrow> jsval list" where
  "elements (JArr xs) = xs"
| "elements v = []"

text \<open>\<^verbatim>\<open>xs.join(sep)\<close> on an array of values.\<close>

definition js_join :: "jsstring \<Rightarrow> jsval list \<Rightarrow> exn + jsstring" where
  "js_join sep xs =
     (if list_ex String_throws xs then Inl conversion_TypeError
      else Inr (join sep (map (\<lambda>x. if nullish x then [] else String_text x) xs)))"

section \<open>Name groups and room matching\<close>

text \<open>
  \<^verbatim>\<open>parseLiveNameGroups(liveNames)\<close>:
  \<^verbatim>\<open>liveNames.filter(Boolean).map((item) => item.split("|").map((n) => n.trim()).filter(Boolean))\<close>
\<close>

definition bar :: jschar where
  "bar = 0x7C"

definition parseLiveNameGroups :: "jsstring list \<Rightarrow> jsstring list list" where
  "parseLiveNameGroups liveNames =
     map (\<lambda>item. filter (\<lambda>n. n \<noteq> []) (map trim (split_on bar item)))
         (filter (\<lambda>item. item \<noteq> []) liveNames)"

record matched_group =
  mg_names :: "jsstring list"
  mg_rooms :: "jsval list"

text \<open>
  The callback of \<^verbatim>\<open>liveList.find\<close>:
  \<^verbatim>\<open>const name = String(room?.name || ""); return name && name.includes(target);\<close>
  The conversion can throw; \<^verbatim>\<open>find\<close> then stops and the exception leaves
  \<^verbatim>\<open>filterLiveRooms\<close>.
\<close>

definition room_name :: "jsval \<Rightarrow> exn + jsstring" where
  "room_name room = js_String (js_or (get ''name'' room) (JStr []))"

fun find_room :: "jsstring \<Rightarrow> jsval list \<Rightarrow> exn + jsval option" where
  "find_room target [] = Inr None"
| "find_room target (room # rest) =
     (case room_name room of
        Inl err \<Rightarrow> Inl err
      | Inr name \<Rightarrow>
          if name \<noteq> [] \<and> str_includes name target then Inr (Some room)
          else find_room target rest)"

text \<open>
  The inner loop of \<^verbatim>\<open>filterLiveRooms\<close> over the targets of one name group:
  the found room is pushed when it is truthy (\<^verbatim>\<open>find\<close> gives \<^verbatim>\<open>undefined\<close> when
  no room matches).
\<close>

fun match_group :: "jsval list \<Rightarrow> jsstring list \<Rightarrow> jsval list \<Rightarrow> exn + jsval list" where
  "match_group liveList [] rs = Inr rs"
| "match_group liveList (target # targets) rs =
     (case find_room target liveList of
        Inl err \<Rightarrow> Inl err
      | Inr None \<Rightarrow> match_group liveList targets rs
      | Inr (Some matched) \<Rightarrow>
          match_group liveList targets (if truthy matched then rs @ [matched] else rs))"

text \<open>The outer loop: a group is pushed when \<^verbatim>\<open>rooms.length > 0\<close>.\<close>

fun match_groups ::
  "jsval list \<Rightarrow> jsstring list list \<Rightarrow> matched_group list \<Rightarrow> exn + matched_group list" where
  "match_groups liveList [] result = Inr result"
| "match_groups liveList (nameGroup # groups) result =
     (case match_group liveList nameGroup [] of
        Inl err \<Rightarrow> Inl err
      | Inr rs \<Rightarrow>
          match_groups liveList groups
            (if length rs > 0 then result @ [\<lparr>mg_names = nameGroup, mg_rooms = rs\<rparr>] else result))"

definition filterLiveRooms :: "jsval list \<Rightarrow> jsstring list \<Rightarrow> exn + matched_group list" where
  "filterLiveRooms liveList liveNames = match_groups liveList (parseLiveNameGroups liveNames) []"

section \<open>Requests, responses and the fetcher\<close>

text \<open>
  Every call is a POST. \<open>req_body\<close> is the value handed to \<^verbatim>\<open>JSON.stringify\<close>.
  A response has its \<^verbatim>\<open>ok\<close> flag (true for a 2xx status), status (a number, kept as
  its text), status text, and what \<^verbatim>\<open>text()\<close> and \<^verbatim>\<open>json()\<close> resolve to or reject with.
\<close>

record request =
  req_url :: jsstring
  req_headers :: "(jsstring \<times> jsstring) list"
  req_body :: jsval

record response =
  res_ok :: bool
  res_status :: jsstring
  res_statusText :: jsstring
  res_text :: "exn + jsstring"
  res_json :: "exn + jsval"

text \<open>
  The \<^verbatim>\<open>fetcher\<close> argument: what it answers may depend on the requests made
  before. Each operation takes the list of requests made so far and returns it extended.
\<close>

type_synonym fetcher = "request list \<Rightarrow> request \<Rightarrow> exn + response"

definition call :: "fetcher \<Rightarrow> request \<Rightarrow> request list \<Rightarrow> (exn + response) \<times> request list" where
  "call fetcher rq tr = (fetcher tr rq, tr @ [rq])"

record server =
  srv_alias :: jsstring
  srv_url :: jsstring

definition LIVE_LIST_PAYLOAD :: jsval where
  "LIVE_LIST_PAYLOAD =
     JObj [(ascii ''pageInfo'',
            JObj [(ascii ''orderBy'', JStr []), (ascii ''pageNum'', JNum (ascii ''1'')),
                  (ascii ''pageSize'', JNum (ascii ''1000'')), (ascii ''total'', JNum (ascii ''100'')),
                  (ascii ''pages'', JNum (ascii ''10''))]),
           (ascii ''param'', JObj [])]"

definition safeJson :: "response \<Rightarrow> jsval" where
  "safeJson res = (case res_json res of Inr v \<Rightarrow> v | Inl _ \<Rightarrow> JNull)"

definition safeError :: "response \<Rightarrow> jsstring" where
  "safeError res =
     (case res_text res of
        Inr body \<Rightarrow> res_status res @ ascii '' '' @ res_statusText res @ ascii '': '' @ body
      | Inl _ \<Rightarrow> res_status res @ ascii '' '' @ res_statusText res)"

definition buildHeaders :: "jsstring \<Rightarrow> (jsstring \<times> jsstring) list" where
  "buildHeaders token = [(ascii ''Content-Type'', ascii ''application/json''), (ascii ''Token'', token)]"

section \<open>Fetching the live list\<close>

definition liveList_request :: "server \<Rightarrow> jsstring \<Rightarrow> request" where
  "liveList_request srv token =
     \<lparr>req_url = ascii ''https://'' @ srv_url srv @ ascii ''/api/live/liveList'',
      req_headers = buildHeaders token,
      req_body = LIVE_LIST_PAYLOAD\<rparr>"

text \<open>
  The two literals of \<^verbatim>\<open>fetchLiveList\<close>: "fetching the live list failed" (eight
  code units) and "the live list data has an unexpected format" (ten code units).
\<close>

definition msg_list_failed :: jsstring where
  "msg_list_failed = [0x83B7, 0x53D6, 0x76F4, 0x64AD, 0x5217, 0x8868, 0x5931, 0x8D25]"

definition msg_list_shape :: jsstring where
  "msg_list_shape = [0x76F4, 0x64AD, 0x5217, 0x8868, 0x6570, 0x636E, 0x683C, 0x5F0F, 0x5F02, 0x5E38]"

definition fetchLiveList ::
  "server \<Rightarrow> jsstring \<Rightarrow> fetcher \<Rightarrow> request list \<Rightarrow> (exn + jsval list) \<times> request list" where
  "fetchLiveList srv token fetcher tr =
     (let (r, tr') = call fetcher (liveList_request srv token) tr
      in case r of
           Inl err \<Rightarrow> (Inl err, tr')
         | Inr res \<Rightarrow>
             if \<not> res_ok res then (Inl (new_Error (safeError res)), tr')
             else (case res_json res of
                     Inl err \<Rightarrow> (Inl err, tr')
                   | Inr data \<Rightarrow>
                       if \<not> truthy (get ''success'' (get ''meta'' data))
                       then (case js_String (js_or (get ''message'' (get ''meta'' data))
                                                   (JStr msg_list_failed)) of
                               Inl err \<Rightarrow> (Inl err, tr')
                             | Inr m \<Rightarrow> (Inl (new_Error m), tr'))
                       else if \<not> isArray (get ''data'' data)
                       then (Inl (new_Error msg_list_shape), tr')
                       else (Inr (elements (get ''data'' data)), tr')))"

section \<open>Refreshing codes\<close>

text \<open>What \<^verbatim>\<open>refreshRoomCode\<close> and \<^verbatim>\<open>refreshMultiRoomCode\<close> return.\<close>

record refresh =
  rf_code :: jsstring
  rf_success :: bool
  rf_message :: jsstring

text \<open>The fallback literal of both refresh operations: "refresh failed" (four code units).\<close>

definition msg_refresh_failed :: jsstring where
  "msg_refresh_failed = [0x5237, 0x65B0, 0x5931, 0x8D25]"

text \<open>
  The request of \<^verbatim>\<open>refreshRoomCode\<close>, for the text \<^verbatim>\<open>String(liveId)\<close>. The arguments of
  the \<^verbatim>\<open>fetcher\<close> call are evaluated before the call: when \<^verbatim>\<open>String(liveId)\<close> throws, no
  request is made. \<^verbatim>\<open>String(code)\<close> after the response can throw too.
\<close>

definition refreshRoomCode_request :: "server \<Rightarrow> jsstring \<Rightarrow> jsstring \<Rightarrow> request" where
  "refreshRoomCode_request srv token param =
     \<lparr>req_url = ascii ''https://'' @ srv_url srv @ ascii ''/api/live/refreshVerifyCode'',
      req_headers = buildHeaders token,
      req_body = JObj [(ascii ''param'', JStr param)]\<rparr>"

text \<open>The returned \<^verbatim>\<open>{ code: String(code), success, message: success ? "" : String(code) }\<close>.\<close>

definition refresh_result :: "bool \<Rightarrow> jsval \<Rightarrow> exn + refresh" where
  "refresh_result success code =
     (case js_String code of
        Inl err \<Rightarrow> Inl err
      | Inr c \<Rightarrow> Inr \<lparr>rf_code = c, rf_success = success,
                       rf_message = (if success then [] else c)\<rparr>)"

definition refreshRoomCode ::
  "server \<Rightarrow> jsstring \<Rightarrow> jsval \<Rightarrow> fetcher \<Rightarrow> request list \<Rightarrow> (exn + refresh) \<times> request list" where
  "refreshRoomCode srv token liveId fetcher tr =
     (case js_String liveId of
        Inl err \<Rightarrow> (Inl err, tr)
      | Inr param \<Rightarrow>
          (let (r, tr') = call fetcher (refreshRoomCode_request srv token param) tr
           in case r of
                Inl err \<Rightarrow> (Inl err, tr')
              | Inr res \<Rightarrow>
                  if \<not> res_ok res then (Inl (new_Error (safeError res)), tr')
                  else
                    (let data = safeJson res;
                         success = truthy (get ''success'' (get ''meta'' data));
                         code = js_coalesce
                                  (js_coalesce (get ''code'' (get ''data'' data))
                                               (get ''message'' (get ''meta'' data)))
                                  (JStr msg_refresh_failed)
                     in (refresh_result success code, tr'))))"

definition refreshMultiRoomCode_request :: "server \<Rightarrow> jsstring \<Rightarrow> jsstring \<Rightarrow> request" where
  "refreshMultiRoomCode_request srv token param =
     \<lparr>req_url = ascii ''https://'' @ srv_url srv @ ascii ''/api/live/batchRefVerifyCode'',
      req_headers = buildHeaders token,
      req_body = JObj [(ascii ''param'', JStr param)]\<rparr>"

definition refreshMultiRoomCode ::
  "server \<Rightarrow> jsstring \<Rightarrow> jsval list \<Rightarrow> fetcher \<Rightarrow> request list \<Rightarrow> (exn + refresh) \<times> request list" where
  "refreshMultiRoomCode srv token liveIds fetcher tr =
     (case js_join (ascii '','') liveIds of
        Inl err \<Rightarrow> (Inl err, tr)
      | Inr param \<Rightarrow>
          (let (r, tr') = call fetcher (refreshMultiRoomCode_request srv token param) tr
           in case r of
                Inl err \<Rightarrow> (Inl err, tr')
              | Inr res \<Rightarrow>
                  if \<not> res_ok res then (Inl (new_Error (safeError res)), tr')
                  else
                    (let data = safeJson res;
                         success = truthy (get ''success'' (get ''meta'' data));
                         code = js_coalesce
                                  (js_coalesce (get ''data'' data)
                                               (get ''message'' (get ''meta'' data)))
                                  (JStr msg_refresh_failed)
                     in (refresh_result success code, tr'))))"

section \<open>One server\<close>

text \<open>An entry of \<^verbatim>\<open>result.rooms\<close>: \<^verbatim>\<open>{ name, code, success, message }\<close>.\<close>

record room_outcome =
  oc_name :: jsstring
  oc_code :: jsstring
  oc_success :: bool
  oc_message :: jsstring

record server_result =
  sr_alias :: jsstring
  sr_rooms :: "room_outcome list"
  sr_success :: bool
  sr_error :: "jsstring option"

text \<open>
  The literals of \<^verbatim>\<open>refreshServer\<close>: "room id missing, cannot refresh the code",
  the prefix "refresh exception:" (with a full-width colon), the prefix
  "fetching the live list failed:" (with a full-width colon) and
  "no live room to refresh was matched".
\<close>

definition msg_missing_id :: jsstring where
  "msg_missing_id = [0x7F3A, 0x5C11, 0x76F4, 0x64AD, 0x95F4, 0x0020, 0x0049, 0x0044, 0xFF0C,
                     0x65E0, 0x6CD5, 0x5237, 0x7801]"

definition msg_refresh_exception :: jsstring where
  "msg_refresh_exception = [0x5237, 0x7801, 0x5F02, 0x5E38, 0xFF1A]"

definition msg_list_failed_prefix :: jsstring where
  "msg_list_failed_prefix = [0x83B7, 0x53D6, 0x76F4, 0x64AD, 0x5217, 0x8868, 0x5931, 0x8D25, 0xFF1A]"

definition msg_no_match :: jsstring where
  "msg_no_match = [0x672A, 0x5339, 0x914D, 0x5230, 0x4EFB, 0x4F55, 0x9700, 0x8981, 0x5237, 0x7801,
                   0x7684, 0x76F4, 0x64AD, 0x95F4]"

text \<open>\<^verbatim>\<open>group.rooms.map((r) => r?.id).filter(Boolean)\<close>\<close>

definition liveIds_of :: "matched_group \<Rightarrow> jsval list" where
  "liveIds_of grp = filter truthy (map (get ''id'') (mg_rooms grp))"

text \<open>
  The body of the loop \<^verbatim>\<open>for (const group of matched)\<close> of \<^verbatim>\<open>refreshServer\<close>:
  the outcome pushed to \<^verbatim>\<open>result.rooms\<close> for one group, and the requests made.
\<close>

definition refresh_group ::
  "server \<Rightarrow> jsstring \<Rightarrow> fetcher \<Rightarrow> matched_group \<Rightarrow> request list \<Rightarrow> room_outcome \<times> request list" where
  "refresh_group srv token fetcher grp tr =
     (let displayName = join (ascii ''|'') (mg_names grp);
          liveIds = liveIds_of grp
      in if length liveIds = 0
         then (\<lparr>oc_name = displayName, oc_code = msg_missing_id, oc_success = False,
                 oc_message = msg_missing_id\<rparr>, tr)
         else
           (let (r, tr') = (if length liveIds = 1
                            then refreshRoomCode srv token (liveIds ! 0) fetcher tr
                            else refreshMultiRoomCode srv token liveIds fetcher tr)
            in case r of
                 Inr rf \<Rightarrow>
                   (\<lparr>oc_name = displayName, oc_code = rf_code rf, oc_success = rf_success rf,
                      oc_message = rf_message rf\<rparr>, tr')
               | Inl err \<Rightarrow>
                   (let message = msg_refresh_exception @ exn_text err
                    in (\<lparr>oc_name = displayName, oc_code = message, oc_success = False,
                          oc_message = message\<rparr>, tr'))))"

definition refresh_groups ::
  "server \<Rightarrow> jsstring \<Rightarrow> fetcher \<Rightarrow> matched_group list \<Rightarrow> room_outcome list \<times> request list
     \<Rightarrow> room_outcome list \<times> request list" where
  "refresh_groups srv token fetcher matched st =
     fold (\<lambda>grp (outs, tr).
             let (out, tr') = refresh_group srv token fetcher grp tr in (outs @ [out], tr'))
          matched st"

text \<open>
  \<^verbatim>\<open>refreshServer\<close>: the call of \<^verbatim>\<open>filterLiveRooms\<close> is outside every \<^verbatim>\<open>try\<close>, so an
  exception of the name conversion leaves \<^verbatim>\<open>refreshServer\<close>.
\<close>

definition refreshServer ::
  "server \<Rightarrow> jsstring \<Rightarrow> jsstring list \<Rightarrow> fetcher \<Rightarrow> request list
     \<Rightarrow> (exn + server_result) \<times> request list" where
  "refreshServer srv token liveNames fetcher tr =
     (let result = \<lparr>sr_alias = srv_alias srv, sr_rooms = [], sr_success = False, sr_error = None\<rparr>
      in case fetchLiveList srv token fetcher tr of
           (Inl err, tr1) \<Rightarrow>
             (Inr (result\<lparr>sr_error := Some (msg_list_failed_prefix @ exn_text err)\<rparr>), tr1)
         | (Inr liveList, tr1) \<Rightarrow>
             (case filterLiveRooms liveList liveNames of
                Inl err \<Rightarrow> (Inl err, tr1)
              | Inr matched \<Rightarrow>
                  if length matched = 0
                  then (Inr (result\<lparr>sr_error := Some msg_no_match\<rparr>), tr1)
                  else
                    (let (outs, tr2) = refresh_groups srv token fetcher matched (sr_rooms result, tr1)
                     in (Inr (result\<lparr>sr_rooms := outs,
                                       sr_success := (length outs > 0 \<and> list_all oc_success outs)\<rparr>),
                         tr2))))"

text \<open>\<^verbatim>\<open>refreshAll\<close>: the loop over the servers, left by the first exception.\<close>

fun refreshAll_from ::
  "jsstring \<Rightarrow> jsstring list \<Rightarrow> fetcher \<Rightarrow> server list \<Rightarrow> server_result list \<Rightarrow> request list
     \<Rightarrow> (exn + server_result list) \<times> request list" where
  "refreshAll_from token liveNames fetcher [] results tr = (Inr results, tr)"
| "refreshAll_from token liveNames fetcher (srv # servers) results tr =
     (case refreshServer srv token liveNames fetcher tr of
        (Inl err, tr') \<Rightarrow> (Inl err, tr')
      | (Inr result, tr') \<Rightarrow> refreshAll_from token liveNames fetcher servers (results @ [result]) tr')"

definition refreshAll ::
  "server list \<Rightarrow> jsstring \<Rightarrow> jsstring list \<Rightarrow> fetcher \<Rightarrow> request list
     \<Rightarrow> (exn + server_result list) \<times> request list" where
  "refreshAll servers token liveNames fetcher tr =
     refreshAll_from token liveNames fetcher servers [] tr"

section \<open>Notification\<close>

text \<open>
  The literals of \<^verbatim>\<open>buildMessage\<close>: the brackets around the alias, "refresh failed",
  "reason:", "refresh succeeded", "refresh finished (partial failure)",
  "no live room to refresh was matched" and " refresh failed:".
\<close>

definition msg_failed :: jsstring where
  "msg_failed = [0x5237, 0x7801, 0x5931, 0x8D25]"

definition msg_reason :: jsstring where
  "msg_reason = [0x539F, 0x56E0, 0xFF1A]"

definition msg_succeeded :: jsstring where
  "msg_succeeded = [0x5237, 0x7801, 0x6210, 0x529F]"

definition msg_partial :: jsstring where
  "msg_partial = [0x5237, 0x7801, 0x5B8C, 0x6210, 0xFF08, 0x90E8, 0x5206, 0x5931, 0x8D25, 0xFF09]"

definition msg_none_matched :: jsstring where
  "msg_none_matched = [0x672A, 0x5339, 0x914D, 0x5230, 0x9700, 0x8981, 0x5237, 0x7801, 0x7684,
                       0x76F4, 0x64AD, 0x95F4]"

definition msg_room_failed :: jsstring where
  "msg_room_failed = [0x0020, 0x5237, 0x7801, 0x5931, 0x8D25, 0xFF1A]"

definition newline :: jsstring where
  "newline = [0x000A]"

definition room_line :: "room_outcome \<Rightarrow> jsstring" where
  "room_line room =
     (if oc_success room then oc_name room @ ascii '':'' @ oc_code room
      else oc_name room @ msg_room_failed @ oc_message room)"

definition buildMessage :: "server_result \<Rightarrow> jsstring" where
  "buildMessage serverResult =
     (let alias = (if sr_alias serverResult \<noteq> [] then sr_alias serverResult else ascii ''unknown'')
      in if (case sr_error serverResult of Some e \<Rightarrow> e \<noteq> [] | None \<Rightarrow> False)
         then [0x3010] @ alias @ [0x3011] @ msg_failed @ newline @ msg_reason
                @ the (sr_error serverResult)
         else
           (let header = (if sr_success serverResult then msg_succeeded else msg_partial);
                lines = [[0x3010] @ alias @ [0x3011] @ header];
                rooms = sr_rooms serverResult
            in join newline
                 (if length rooms = 0 then lines @ [msg_none_matched]
                  else lines @ map room_line rooms)))"

definition notification_request :: "jsstring \<Rightarrow> server_result \<Rightarrow> request" where
  "notification_request webhookKey serverResult =
     \<lparr>req_url = ascii ''https://qyapi.weixin.qq.com/cgi-bin/webhook/send?key='' @ webhookKey,
      req_headers = [(ascii ''Content-Type'', ascii ''application/json'')],
      req_body = JObj [(ascii ''msgtype'', JStr (ascii ''text'')),
                       (ascii ''text'', JObj [(ascii ''content'', JStr (buildMessage serverResult))])]\<rparr>"

text \<open>The literal of \<^verbatim>\<open>sendNotification\<close>: "WeCom returned an error".\<close>

definition msg_wechat_error :: jsstring where
  "msg_wechat_error = [0x4F01, 0x4E1A, 0x5FAE, 0x4FE1, 0x8FD4, 0x56DE, 0x9519, 0x8BEF]"

definition sendNotification ::
  "jsstring \<Rightarrow> server_result \<Rightarrow> fetcher \<Rightarrow> request list \<Rightarrow> (exn + unit) \<times> request list" where
  "sendNotification webhookKey serverResult fetcher tr =
     (let (r, tr') = call fetcher (notification_request webhookKey serverResult) tr
      in case r of
           Inl err \<Rightarrow> (Inl err, tr')
         | Inr res \<Rightarrow>
             if \<not> res_ok res then (Inl (new_Error (safeError res)), tr')
             else
               (let data = safeJson res
                in if get ''errcode'' data \<noteq> JNum (ascii ''0'')
                   then (case js_String (js_or (get ''errmsg'' data) (JStr msg_wechat_error)) of
                           Inl err \<Rightarrow> (Inl err, tr')
                         | Inr m \<Rightarrow> (Inl (new_Error m), tr'))
                   else (Inr (), tr')))"

section \<open>Configuration and the run\<close>

text \<open>
  The three places \<^verbatim>\<open>getEnv\<close> reads, in its order: the overrides, the worker's
  \<^verbatim>\<open>env\<close>, and \<^verbatim>\<open>process.env\<close> (the empty map where there is none). A value is
  taken when it is truthy, that is a string that is not empty.
\<close>

type_synonym environment = "string \<rightharpoonup> jsstring"

definition getEnv :: "environment \<Rightarrow> environment \<Rightarrow> environment \<Rightarrow> string \<Rightarrow> jsstring option" where
  "getEnv penv env overrides key =
     (if (case overrides key of Some v \<Rightarrow> v \<noteq> [] | None \<Rightarrow> False) then overrides key
      else if (case env key of Some v \<Rightarrow> v \<noteq> [] | None \<Rightarrow> False) then env key
      else if (case penv key of Some v \<Rightarrow> v \<noteq> [] | None \<Rightarrow> False) then penv key
      else None)"

definition comma :: jschar where
  "comma = 0x2C"

text \<open>\<^verbatim>\<open>(value || "").split(",").map((item) => item.trim()).filter(Boolean)\<close>\<close>

definition parseList :: "jsstring option \<Rightarrow> jsstring list" where
  "parseList v =
     filter (\<lambda>item. item \<noteq> [])
       (map trim (split_on comma (case v of Some s \<Rightarrow> s | None \<Rightarrow> [])))"

record config =
  cfg_servers :: "server list"
  cfg_liveNames :: "jsstring list"
  cfg_token :: jsstring
  cfg_webhookKey :: jsstring

text \<open>
  The literals of \<^verbatim>\<open>loadConfig\<close>: " is not configured", " and " and
  " differ in number", each after the name of the setting.
\<close>

definition msg_not_configured :: jsstring where
  "msg_not_configured = [0x0020, 0x672A, 0x914D, 0x7F6E]"

definition msg_and :: jsstring where
  "msg_and = [0x0020, 0x4E0E, 0x0020]"

definition msg_count_differs :: jsstring where
  "msg_count_differs = [0x0020, 0x6570, 0x91CF, 0x4E0D, 0x4E00, 0x81F4]"

definition loadConfig :: "environment \<Rightarrow> environment \<Rightarrow> environment \<Rightarrow> exn + config" where
  "loadConfig penv env overrides =
     (let aliasList = parseList (getEnv penv env overrides ''SERVER_ALIAS_LIST'');
          urlList = parseList (getEnv penv env overrides ''SERVER_URL_LIST'');
          liveNames = parseList (getEnv penv env overrides ''LIVE_NAME_LIST'');
          token = trim (case getEnv penv env overrides ''SERVER_TOKEN'' of Some s \<Rightarrow> s | None \<Rightarrow> []);
          webhookKey = trim (case getEnv penv env overrides ''WECHAT_WEBHOOK_KEY'' of
                               Some s \<Rightarrow> s | None \<Rightarrow> [])
      in if length aliasList = 0
           then Inl (new_Error (ascii ''SERVER_ALIAS_LIST'' @ msg_not_configured))
         else if length urlList = 0
           then Inl (new_Error (ascii ''SERVER_URL_LIST'' @ msg_not_configured))
         else if length aliasList \<noteq> length urlList
           then Inl (new_Error (ascii ''SERVER_ALIAS_LIST'' @ msg_and @ ascii ''SERVER_URL_LIST''
                                  @ msg_count_differs))
         else if length liveNames = 0
           then Inl (new_Error (ascii ''LIVE_NAME_LIST'' @ msg_not_configured))
         else if token = []
           then Inl (new_Error (ascii ''SERVER_TOKEN'' @ msg_not_configured))
         else if webhookKey = []
           then Inl (new_Error (ascii ''WECHAT_WEBHOOK_KEY'' @ msg_not_configured))
         else Inr \<lparr>cfg_servers = map (\<lambda>idx. \<lparr>srv_alias = aliasList ! idx, srv_url = urlList ! idx\<rparr>)
                                       [0 ..< length aliasList],
                    cfg_liveNames = liveNames, cfg_token = token, cfg_webhookKey = webhookKey\<rparr>)"

text \<open>
  The notification loop of \<^verbatim>\<open>run\<close>: each \<^verbatim>\<open>sendNotification\<close> is inside its own
  \<^verbatim>\<open>try\<close>; a caught error is written to the console with the alias of its result.
\<close>

definition notify_all ::
  "jsstring \<Rightarrow> fetcher \<Rightarrow> server_result list \<Rightarrow> request list \<times> (jsstring \<times> exn) list
     \<Rightarrow> request list \<times> (jsstring \<times> exn) list" where
  "notify_all webhookKey fetcher results st =
     fold (\<lambda>result (tr, logged).
             case sendNotification webhookKey result fetcher tr of
               (Inl err, tr') \<Rightarrow> (tr', logged @ [(sr_alias result, err)])
             | (Inr u, tr') \<Rightarrow> (tr', logged))
          results st"

text \<open>
  \<^verbatim>\<open>run(env, overrides, fetcher)\<close>: what it returns or throws, the requests made, and
  the console lines of caught notification errors.
\<close>

definition run ::
  "environment \<Rightarrow> environment \<Rightarrow> environment \<Rightarrow> fetcher \<Rightarrow> request list
     \<Rightarrow> (exn + server_result list) \<times> request list \<times> (jsstring \<times> exn) list" where
  "run penv env overrides fetcher tr =
     (case loadConfig penv env overrides of
        Inl err \<Rightarrow> (Inl err, tr, [])
      | Inr cfg \<Rightarrow>
          (case refreshAll (cfg_servers cfg) (cfg_token cfg) (cfg_liveNames cfg) fetcher tr of
             (Inl err, tr1) \<Rightarrow> (Inl err, tr1, [])
           | (Inr results, tr1) \<Rightarrow>
               (let (tr2, logged) = notify_all (cfg_webhookKey cfg) fetcher results (tr1, [])
                in (Inr results, tr2, logged))))"

section \<open>Reference definitions\<close>





text \<open>
  The refresh requests one matched group causes: none when no room of the group has a
  truthy id; with exactly one id, one to the single-room endpoint; with two or more,
  one to the batch endpoint; and none when the ids cannot be rendered as text.
\<close>

definition group_requests :: "server \<Rightarrow> jsstring \<Rightarrow> matched_group \<Rightarrow> request list" where
  "group_requests srv token grp =
     (case liveIds_of grp of
        [] \<Rightarrow> []
      | [liveId] \<Rightarrow>
          (case js_String liveId of
             Inl err \<Rightarrow> []
           | Inr param \<Rightarrow> [refreshRoomCode_request srv token param])
      | liveId # others \<Rightarrow>
          (case js_join (ascii '','') (liveId # others) of
             Inl err \<Rightarrow> []
           | Inr param \<Rightarrow> [refreshMultiRoomCode_request srv token param]))"


section \<open>Example inputs\<close>

text \<open>Rooms: two with an id, one without.\<close>

definition ex_room_alpha :: jsval where
  "ex_room_alpha = JObj [(ascii ''id'', JNum (ascii ''1'')), (ascii ''name'', JStr (ascii ''Room Alpha''))]"

definition ex_room_beta :: jsval where
  "ex_room_beta = JObj [(ascii ''id'', JNum (ascii ''2'')), (ascii ''name'', JStr (ascii ''Room Beta''))]"

definition ex_room_gamma :: jsval where
  "ex_room_gamma = JObj [(ascii ''name'', JStr (ascii ''Room Gamma''))]"









text \<open>Servers, token and configuration.\<close>

definition ex_srv :: server where
  "ex_srv = \<lparr>srv_alias = ascii ''east'', srv_url = ascii ''live.example.com''\<rparr>"

definition ex_token :: jsstring where
  "ex_token = ascii ''secret''"

definition ex_env :: environment where
  "ex_env = map_of
     [(''SERVER_ALIAS_LIST'', ascii ''east, west''),
      (''SERVER_URL_LIST'', ascii ''e.example.com,w.example.com''),
      (''LIVE_NAME_LIST'', ascii ''Alpha|Beta''),
      (''SERVER_TOKEN'', ascii ''secret''),
      (''WECHAT_WEBHOOK_KEY'', ascii ''key'')]"

definition ex_east :: server where
  "ex_east = \<lparr>srv_alias = ascii ''east'', srv_url = ascii ''e.example.com''\<rparr>"

definition ex_west :: server where
  "ex_west = \<lparr>srv_alias = ascii ''west'', srv_url = ascii ''w.example.com''\<rparr>"

definition ex_config :: config where
  "ex_config = \<lparr>cfg_servers = [ex_east, ex_west], cfg_liveNames = [ascii ''Alpha|Beta''],
                 cfg_token = ascii ''secret'', cfg_webhookKey = ascii ''key''\<rparr>"

text \<open>Responses and payloads.\<close>

definition ok_response :: "jsval \<Rightarrow> response" where
  "ok_response payload =
     \<lparr>res_ok = True, res_status = ascii ''200'', res_statusText = ascii ''OK'', res_text = Inr [],
      res_json = Inr payload\<rparr>"

definition ex_response_503 :: response where
  "ex_response_503 =
     \<lparr>res_ok = False, res_status = ascii ''503'', res_statusText = ascii ''Service Unavailable'',
      res_text = Inr (ascii ''down''),
      res_json = Inl \<lparr>ename = ascii ''SyntaxError'', emessage = ascii ''Unexpected token''\<rparr>\<rparr>"

definition ex_response_malformed :: response where
  "ex_response_malformed =
     \<lparr>res_ok = True, res_status = ascii ''200'', res_statusText = ascii ''OK'',
      res_text = Inr (ascii ''<html>''),
      res_json = Inl \<lparr>ename = ascii ''SyntaxError'', emessage = ascii ''Unexpected token''\<rparr>\<rparr>"

definition ex_payload_code_object :: jsval where
  "ex_payload_code_object =
     JObj [(ascii ''meta'', JObj [(ascii ''success'', JBool True)]),
           (ascii ''data'', JObj [(ascii ''code'', JStr (ascii ''3200''))])]"

definition ex_payload_failed_with_code :: jsval where
  "ex_payload_failed_with_code =
     JObj [(ascii ''meta'', JObj [(ascii ''success'', JBool False),
                                   (ascii ''message'', JStr (ascii ''bad''))]),
           (ascii ''data'', JObj [(ascii ''code'', JStr (ascii ''1234''))])]"

definition ex_payload_success_no_data :: jsval where
  "ex_payload_success_no_data =
     JObj [(ascii ''meta'', JObj [(ascii ''success'', JBool True),
                                   (ascii ''message'', JStr (ascii ''ok''))])]"

definition ex_list_payload :: "jsval list \<Rightarrow> jsval" where
  "ex_list_payload liveList =
     JObj [(ascii ''meta'', JObj [(ascii ''success'', JBool True)]), (ascii ''data'', JArr liveList)]"

text \<open>
  Fetchers: one that answers every request with the same payload, one that answers the
  first request with a room list and the later ones with a code, one whose every
  request is rejected, one that answers 503, one that answers 200 with a body that is
  not JSON.
\<close>

definition ex_fetcher_code_object :: fetcher where
  "ex_fetcher_code_object tr rq = Inr (ok_response ex_payload_code_object)"

definition ex_fetcher_success_no_data :: fetcher where
  "ex_fetcher_success_no_data tr rq = Inr (ok_response ex_payload_success_no_data)"

definition ex_fetcher_failed_with_code :: fetcher where
  "ex_fetcher_failed_with_code tr rq = Inr (ok_response ex_payload_failed_with_code)"

definition ex_fetcher_rooms :: "jsval list \<Rightarrow> fetcher" where
  "ex_fetcher_rooms liveList tr rq =
     (case tr of [] \<Rightarrow> Inr (ok_response (ex_list_payload liveList))
               | first # rest \<Rightarrow> Inr (ok_response ex_payload_code_object))"


definition ex_fetcher_down :: fetcher where
  "ex_fetcher_down tr rq = Inl \<lparr>ename = ascii ''TypeError'', emessage = ascii ''fetch failed''\<rparr>"

definition ex_fetcher_503 :: fetcher where
  "ex_fetcher_503 tr rq = Inr ex_response_503"

definition ex_fetcher_malformed :: fetcher where
  "ex_fetcher_malformed tr rq = Inr ex_response_malformed"

definition ex_result_down :: "jsstring \<Rightarrow> server_result" where
  "ex_result_down alias =
     \<lparr>sr_alias = alias, sr_rooms = [], sr_success = False,
      sr_error = Some (msg_list_failed_prefix @ ascii ''fetch failed'')\<rparr>"

section \<open>Strings: splitting, joining, trimming, containment\<close>


lemma split_on_not_Nil: "split_on sep s \<noteq> []"
  by (induction s) (auto simp: Let_def)

lemma join_Cons: "xs \<noteq> [] \<Longrightarrow> join sep (x # xs) = x @ sep @ join sep xs"
  by (cases xs) auto

lemma join_hd_tl: "r \<noteq> [] \<Longrightarrow> join [sep] ((c # hd r) # tl r) = c # join [sep] r"
  by (cases r; cases "tl r") auto

lemma join_split_on: "join [sep] (split_on sep s) = s"
proof (induction s)
  case Nil
  show ?case by simp
next
  case (Cons c cs)
  show ?case
  proof (cases "c = sep")
    case True
    then show ?thesis using Cons split_on_not_Nil[of sep cs] by (simp add: join_Cons)
  next
    case False
    then show ?thesis using Cons split_on_not_Nil[of sep cs] by (simp add: Let_def join_hd_tl)
  qed
qed

lemma split_on_no_sep: "p \<in> set (split_on sep s) \<Longrightarrow> sep \<notin> set p"
proof (induction s arbitrary: p)
  case Nil
  then show ?case by simp
next
  case (Cons c cs)
  obtain w ws where r: "split_on sep cs = w # ws"
    using split_on_not_Nil[of sep cs] by (cases "split_on sep cs") auto
  show ?case
  proof (cases "c = sep")
    case True
    with Cons show ?thesis by auto
  next
    case False
    with Cons r show ?thesis by (auto simp: Let_def)
  qed
qed

lemma rev_dropWhile_takeWhile:
  "xs = rev (dropWhile P (rev xs)) @ rev (takeWhile P (rev xs))"
proof -
  have "rev (takeWhile P (rev xs) @ dropWhile P (rev xs)) = xs"
    by (simp only: takeWhile_dropWhile_id rev_rev_ident)
  then show ?thesis by (simp only: rev_append)
qed

lemma last_dropWhile: "dropWhile P xs \<noteq> [] \<Longrightarrow> last (dropWhile P xs) = last xs"
  by (metis last_appendR takeWhile_dropWhile_id)

lemma trim_decomp:
  "\<exists>a b. p = a @ trim p @ b \<and> list_all isWhiteSpace a \<and> list_all isWhiteSpace b"
proof -
  let ?q = "dropWhile isWhiteSpace p"
  let ?a = "takeWhile isWhiteSpace p"
  let ?b = "rev (takeWhile isWhiteSpace (rev ?q))"
  have q: "?q = trim p @ ?b"
    unfolding trim_def by (rule rev_dropWhile_takeWhile)
  have "p = ?a @ ?q" by simp
  with q have "p = ?a @ trim p @ ?b" by simp
  moreover have "list_all isWhiteSpace ?a"
    by (simp add: list_all_iff) (meson set_takeWhileD)
  moreover have "list_all isWhiteSpace ?b"
    by (simp add: list_all_iff) (meson set_takeWhileD)
  ultimately show ?thesis by blast
qed

lemma trim_ends:
  assumes "trim p \<noteq> []"
  shows "\<not> isWhiteSpace (hd (trim p))" and "\<not> isWhiteSpace (last (trim p))"
proof -
  let ?q = "dropWhile isWhiteSpace p"
  let ?r = "dropWhile isWhiteSpace (rev ?q)"
  from assms have r: "?r \<noteq> []" by (simp add: trim_def)
  have q: "?q \<noteq> []"
  proof
    assume "?q = []"
    then have "?r = []" by (simp only: rev.simps dropWhile.simps)
    with r show False by contradiction
  qed
  have "last (trim p) = hd ?r" using r by (simp add: trim_def last_rev)
  then show "\<not> isWhiteSpace (last (trim p))" using hd_dropWhile[OF r] by simp
  have "hd (trim p) = last ?r" using r by (simp add: trim_def hd_rev)
  also have "\<dots> = last (rev ?q)" using r by (rule last_dropWhile)
  also have "\<dots> = hd ?q" using q by (simp add: last_rev)
  finally show "\<not> isWhiteSpace (hd (trim p))" using hd_dropWhile[OF q] by simp
qed

section \<open>Name groups\<close>


text \<open>
  C6, as the code has it. \<^verbatim>\<open>parseLiveNameGroups\<close> drops the entries that are the empty
  string and makes one group of each other entry, in order: the pieces of the entry
  between its \<^verbatim>\<open>|\<close> separators (joining the pieces with \<^verbatim>\<open>|\<close> gives the entry back, and
  no piece holds a \<^verbatim>\<open>|\<close>), each trimmed (white space removed at both ends only), the
  empty ones dropped. The entries \<^verbatim>\<open>["A", "B|C", ""]\<close> give the two groups \<^verbatim>\<open>["A"]\<close> and
  \<^verbatim>\<open>["B", "C"]\<close>. An entry that is not empty and yields no pattern stays, as an empty group.
\<close>

theorem parseLiveNameGroups_groups:
  "parseLiveNameGroups liveNames =
     map (\<lambda>item. filter (\<lambda>n. n \<noteq> []) (map trim (split_on bar item)))
         (filter (\<lambda>item. item \<noteq> []) liveNames)
   \<and> (\<forall>item. join [bar] (split_on bar item) = item \<and> (\<forall>p \<in> set (split_on bar item). bar \<notin> set p))
   \<and> (\<forall>p. (\<exists>a b. p = a @ trim p @ b \<and> list_all isWhiteSpace a \<and> list_all isWhiteSpace b)
          \<and> (trim p \<noteq> [] \<longrightarrow> \<not> isWhiteSpace (hd (trim p)) \<and> \<not> isWhiteSpace (last (trim p))))
   \<and> parseLiveNameGroups [ascii ''A'', ascii ''B|C'', []] = [[ascii ''A''], [ascii ''B'', ascii ''C'']]"
proof (intro conjI allI ballI impI)
  show "parseLiveNameGroups liveNames =
     map (\<lambda>item. filter (\<lambda>n. n \<noteq> []) (map trim (split_on bar item)))
         (filter (\<lambda>item. item \<noteq> []) liveNames)"
    by (simp add: parseLiveNameGroups_def)
next
  fix item show "join [bar] (split_on bar item) = item" by (rule join_split_on)
next
  fix item p assume "p \<in> set (split_on bar item)"
  then show "bar \<notin> set p" by (rule split_on_no_sep)
next
  fix p show "\<exists>a b. p = a @ trim p @ b \<and> list_all isWhiteSpace a \<and> list_all isWhiteSpace b"
    by (rule trim_decomp)
next
  fix p assume "trim p \<noteq> []"
  then show "\<not> isWhiteSpace (hd (trim p))" by (rule trim_ends(1))
next
  fix p assume "trim p \<noteq> []"
  then show "\<not> isWhiteSpace (last (trim p))" by (rule trim_ends(2))
next
  show "parseLiveNameGroups [ascii ''A'', ascii ''B|C'', []] = [[ascii ''A''], [ascii ''B'', ascii ''C'']]"
    by (simp add: parseLiveNameGroups_def ascii_def bar_def trim_def isWhiteSpace_def)
qed

theorem parseLiveNameGroups_groups_witness:
  "parseLiveNameGroups [ascii '' A | B'', [], ascii ''C''] = [[ascii ''A'', ascii ''B''], [ascii ''C'']]
   \<and> join [bar] (split_on bar (ascii '' A | B'')) = ascii '' A | B''
   \<and> ascii '' A '' \<in> set (split_on bar (ascii '' A | B'')) \<and> bar \<notin> set (ascii '' A '')
   \<and> trim (ascii '' A '') \<noteq> [] \<and> \<not> isWhiteSpace (hd (trim (ascii '' A '')))
   \<and> \<not> isWhiteSpace (last (trim (ascii '' A '')))"
  using parseLiveNameGroups_groups [of "[ascii '' A | B'', [], ascii ''C'']"]
  by (simp add: ascii_def bar_def trim_def isWhiteSpace_def)

theorem parseLiveNameGroups_keeps_empty_group:
  "parseLiveNameGroups [ascii ''A'', ascii ''|''] = [[ascii ''A''], []]"
  by (simp add: parseLiveNameGroups_def ascii_def bar_def trim_def isWhiteSpace_def)

section \<open>Room matching\<close>










section \<open>The refresh operations\<close>

lemma refreshRoomCode_ok:
  assumes "js_String liveId = Inr param"
    and "fetcher tr (refreshRoomCode_request srv token param) = Inr res" and "res_ok res"
  shows "refreshRoomCode srv token liveId fetcher tr =
     (refresh_result (truthy (get ''success'' (get ''meta'' (safeJson res))))
        (js_coalesce (js_coalesce (get ''code'' (get ''data'' (safeJson res)))
                                  (get ''message'' (get ''meta'' (safeJson res))))
                     (JStr msg_refresh_failed)),
      tr @ [refreshRoomCode_request srv token param])"
  using assms by (simp add: refreshRoomCode_def call_def Let_def)

lemma refreshMultiRoomCode_ok:
  assumes "js_join (ascii '','') liveIds = Inr param"
    and "fetcher tr (refreshMultiRoomCode_request srv token param) = Inr res" and "res_ok res"
  shows "refreshMultiRoomCode srv token liveIds fetcher tr =
     (refresh_result (truthy (get ''success'' (get ''meta'' (safeJson res))))
        (js_coalesce (js_coalesce (get ''data'' (safeJson res))
                                  (get ''message'' (get ''meta'' (safeJson res))))
                     (JStr msg_refresh_failed)),
      tr @ [refreshMultiRoomCode_request srv token param])"
  using assms by (simp add: refreshMultiRoomCode_def call_def Let_def)

lemma refresh_result_eq:
  "refresh_result success v =
     (if String_throws v then Inl conversion_TypeError
      else Inr \<lparr>rf_code = String_text v, rf_success = success,
                rf_message = (if success then [] else String_text v)\<rparr>)"
  by (simp add: refresh_result_def js_String_def)

lemma snd_refreshRoomCode:
  "snd (refreshRoomCode srv token liveId fetcher tr) =
     tr @ (case js_String liveId of Inl err \<Rightarrow> []
           | Inr param \<Rightarrow> [refreshRoomCode_request srv token param])"
  by (simp add: refreshRoomCode_def call_def Let_def split: sum.splits)

lemma snd_refreshMultiRoomCode:
  "snd (refreshMultiRoomCode srv token liveIds fetcher tr) =
     tr @ (case js_join (ascii '','') liveIds of Inl err \<Rightarrow> []
           | Inr param \<Rightarrow> [refreshMultiRoomCode_request srv token param])"
  by (simp add: refreshMultiRoomCode_def call_def Let_def split: sum.splits)



text \<open>
  C2, as the code has it. On a response that is ok and whose payload has a truthy
  \<^verbatim>\<open>meta.success\<close>, \<^verbatim>\<open>refreshMultiRoomCode\<close> takes the code from the top-level \<^verbatim>\<open>data\<close> of
  the payload when that is present (neither \<^verbatim>\<open>null\<close> nor \<^verbatim>\<open>undefined\<close>), and
  \<^verbatim>\<open>refreshRoomCode\<close> takes it from \<^verbatim>\<open>data.code\<close> when that is present; when the field is
  absent each takes \<^verbatim>\<open>meta.message\<close> if present and else the literal "refresh failed".
  The value taken is rendered by \<^verbatim>\<open>String\<close>; where that throws the operation throws,
  otherwise the outcome is successful with an empty message.
\<close>

theorem refresh_code_field:
  "(js_join (ascii '','') liveIds = Inr param
      \<and> fetcher tr (refreshMultiRoomCode_request srv token param) = Inr res \<and> res_ok res
      \<and> res_json res = Inr payload \<and> truthy (get ''success'' (get ''meta'' payload))
      \<and> v = (if \<not> nullish (get ''data'' payload) then get ''data'' payload
              else if \<not> nullish (get ''message'' (get ''meta'' payload))
                then get ''message'' (get ''meta'' payload)
              else JStr msg_refresh_failed)
    \<longrightarrow> fst (refreshMultiRoomCode srv token liveIds fetcher tr)
          = (if String_throws v then Inl conversion_TypeError
             else Inr \<lparr>rf_code = String_text v, rf_success = True, rf_message = []\<rparr>))
   \<and> (js_String liveId = Inr param'
      \<and> fetcher tr (refreshRoomCode_request srv token param') = Inr res' \<and> res_ok res'
      \<and> res_json res' = Inr payload' \<and> truthy (get ''success'' (get ''meta'' payload'))
      \<and> v' = (if \<not> nullish (get ''code'' (get ''data'' payload'))
                 then get ''code'' (get ''data'' payload')
               else if \<not> nullish (get ''message'' (get ''meta'' payload'))
                 then get ''message'' (get ''meta'' payload')
               else JStr msg_refresh_failed)
    \<longrightarrow> fst (refreshRoomCode srv token liveId fetcher tr)
          = (if String_throws v' then Inl conversion_TypeError
             else Inr \<lparr>rf_code = String_text v', rf_success = True, rf_message = []\<rparr>))"
  by (auto simp: refreshRoomCode_ok refreshMultiRoomCode_ok refresh_result_eq safeJson_def
      js_coalesce_def)

text \<open>
  The same payload \<^verbatim>\<open>{meta: {success: true}, data: {code: "3200"}}\<close> given to both: the
  batch operation renders the whole \<^verbatim>\<open>data\<close> object, the single one reads \<^verbatim>\<open>"3200"\<close>.
\<close>

theorem refresh_code_field_witness:
  "fst (refreshMultiRoomCode ex_srv ex_token [JNum (ascii ''7''), JNum (ascii ''8'')]
          ex_fetcher_code_object [])
     = Inr \<lparr>rf_code = ascii ''[object Object]'', rf_success = True, rf_message = []\<rparr>
   \<and> fst (refreshRoomCode ex_srv ex_token (JNum (ascii ''7'')) ex_fetcher_code_object [])
     = Inr \<lparr>rf_code = ascii ''3200'', rf_success = True, rf_message = []\<rparr>"
  using refresh_code_field [of "[JNum (ascii ''7''), JNum (ascii ''8'')]" "ascii ''7,8''"
      ex_fetcher_code_object "[]" ex_srv ex_token "ok_response ex_payload_code_object"
      ex_payload_code_object "JObj [(ascii ''code'', JStr (ascii ''3200''))]"
      "JNum (ascii ''7'')" "ascii ''7''"
      "ok_response ex_payload_code_object" ex_payload_code_object "JStr (ascii ''3200'')"]
  by (simp add: ex_fetcher_code_object_def ok_response_def ex_payload_code_object_def ascii_def
      js_join_def js_String_def)

text \<open>
  A successful payload without \<^verbatim>\<open>data\<close>, \<^verbatim>\<open>{meta: {success: true, message: "ok"}}\<close>: both
  operations give the code \<^verbatim>\<open>"ok"\<close>, taken from \<^verbatim>\<open>meta.message\<close>.
\<close>

theorem refresh_code_without_data:
  "get ''data'' ex_payload_success_no_data = JUndefined
   \<and> fst (refreshMultiRoomCode ex_srv ex_token [JNum (ascii ''7''), JNum (ascii ''8'')]
          ex_fetcher_success_no_data [])
     = Inr \<lparr>rf_code = ascii ''ok'', rf_success = True, rf_message = []\<rparr>
   \<and> fst (refreshRoomCode ex_srv ex_token (JNum (ascii ''7'')) ex_fetcher_success_no_data [])
     = Inr \<lparr>rf_code = ascii ''ok'', rf_success = True, rf_message = []\<rparr>"
  by (simp add: refreshRoomCode_def refreshMultiRoomCode_def call_def refresh_result_def
      ex_fetcher_success_no_data_def ok_response_def ex_payload_success_no_data_def safeJson_def
      js_coalesce_def js_join_def js_String_def ascii_def)

text \<open>
  C7, as the code has it. On a response that is ok, a body that is not JSON counts as
  the payload \<^verbatim>\<open>null\<close> and is no exception; \<^verbatim>\<open>success\<close> is the truthiness of
  \<^verbatim>\<open>meta.success\<close>; the code is taken from \<^verbatim>\<open>data.code\<close> when that is present, whether
  the outcome succeeded or not, otherwise from \<^verbatim>\<open>meta.message\<close> when that is present,
  otherwise it is the literal "refresh failed"; it is rendered by \<^verbatim>\<open>String\<close>, and
  \<^verbatim>\<open>refreshRoomCode\<close> throws where that throws; \<^verbatim>\<open>message\<close> is the code when the outcome
  failed and empty when it succeeded.
\<close>

theorem refreshRoomCode_result:
  assumes "js_String liveId = Inr param"
    and "fetcher tr (refreshRoomCode_request srv token param) = Inr res" and "res_ok res"
    and "payload = (case res_json res of Inl e \<Rightarrow> JNull | Inr p \<Rightarrow> p)"
    and "success = truthy (get ''success'' (get ''meta'' payload))"
    and "v = (if \<not> nullish (get ''code'' (get ''data'' payload))
                then get ''code'' (get ''data'' payload)
              else if \<not> nullish (get ''message'' (get ''meta'' payload))
                then get ''message'' (get ''meta'' payload)
              else JStr msg_refresh_failed)"
  shows "fst (refreshRoomCode srv token liveId fetcher tr)
           = (if String_throws v then Inl conversion_TypeError
              else Inr \<lparr>rf_code = String_text v, rf_success = success,
                        rf_message = (if success then [] else String_text v)\<rparr>)"
  using assms
  by (auto simp: refreshRoomCode_ok refresh_result_eq safeJson_def js_coalesce_def split: sum.splits)

text \<open>A body that is not JSON: a failed outcome with the literal, no exception.\<close>

theorem refreshRoomCode_result_witness:
  "fst (refreshRoomCode ex_srv ex_token (JNum (ascii ''7'')) ex_fetcher_malformed [])
     = Inr \<lparr>rf_code = msg_refresh_failed, rf_success = False, rf_message = msg_refresh_failed\<rparr>"
  using refreshRoomCode_result [of "JNum (ascii ''7'')" "ascii ''7''" ex_fetcher_malformed "[]"
      ex_srv ex_token ex_response_malformed JNull False "JStr msg_refresh_failed"]
  by (simp add: ex_fetcher_malformed_def ex_response_malformed_def js_String_def)

text \<open>
  A failed payload that carries \<^verbatim>\<open>data.code\<close>: the code of the outcome is \<^verbatim>\<open>data.code\<close>,
  not \<^verbatim>\<open>meta.message\<close>.
\<close>

theorem refreshRoomCode_failed_payload_code:
  "fst (refreshRoomCode ex_srv ex_token (JNum (ascii ''7'')) ex_fetcher_failed_with_code [])
     = Inr \<lparr>rf_code = ascii ''1234'', rf_success = False, rf_message = ascii ''1234''\<rparr>
   \<and> get ''message'' (get ''meta'' ex_payload_failed_with_code) = JStr (ascii ''bad'')"
  by (simp add: refreshRoomCode_def call_def refresh_result_def ex_fetcher_failed_with_code_def
      ok_response_def ex_payload_failed_with_code_def safeJson_def js_coalesce_def js_String_def
      ascii_def)

section \<open>One group\<close>

lemma snd_refresh_group:
  "snd (refresh_group srv token fetcher grp tr) = tr @ group_requests srv token grp"
proof (cases "liveIds_of grp")
  case Nil
  then show ?thesis by (simp add: refresh_group_def group_requests_def)
next
  case (Cons liveId others)
  show ?thesis
  proof (cases others)
    case Nil
    with Cons show ?thesis
      using snd_refreshRoomCode[of srv token liveId fetcher tr]
      by (auto simp: refresh_group_def group_requests_def Let_def split: prod.splits sum.splits)
  next
    case (Cons b rest)
    with \<open>liveIds_of grp = liveId # others\<close> show ?thesis
      using snd_refreshMultiRoomCode[of srv token "liveId # b # rest" fetcher tr]
      by (auto simp: refresh_group_def group_requests_def Let_def split: prod.splits sum.splits)
  qed
qed







section \<open>Properties of one server\<close>

lemma refresh_groups_Nil: "refresh_groups srv token fetcher [] st = st"
  by (simp add: refresh_groups_def)

lemma refresh_groups_Cons:
  "refresh_groups srv token fetcher (g # gs) (outs, tr) =
     refresh_groups srv token fetcher gs
       (outs @ [fst (refresh_group srv token fetcher g tr)], snd (refresh_group srv token fetcher g tr))"
  by (simp add: refresh_groups_def split: prod.splits)

lemma refresh_groups_trace:
  "snd (refresh_groups srv token fetcher gs (outs, tr))
     = tr @ concat (map (group_requests srv token) gs)"
  by (induction gs arbitrary: outs tr)
    (simp_all add: refresh_groups_Nil refresh_groups_Cons snd_refresh_group)

lemma refresh_groups_length:
  "length (fst (refresh_groups srv token fetcher gs (outs, tr))) = length outs + length gs"
  by (induction gs arbitrary: outs tr) (simp_all add: refresh_groups_Nil refresh_groups_Cons)



lemma refreshServer_matched:
  assumes "fetchLiveList srv token fetcher tr = (Inr liveList, tr1)"
    and "filterLiveRooms liveList liveNames = Inr matched" and "matched \<noteq> []"
  shows "refreshServer srv token liveNames fetcher tr =
     (let st = refresh_groups srv token fetcher matched ([], tr1)
      in (Inr \<lparr>sr_alias = srv_alias srv, sr_rooms = fst st,
                sr_success = (length (fst st) > 0 \<and> list_all oc_success (fst st)), sr_error = None\<rparr>,
          snd st))"
  using assms by (simp add: refreshServer_def Let_def split: prod.splits)

lemma snd_fetchLiveList:
  "snd (fetchLiveList srv token fetcher tr) = tr @ [liveList_request srv token]"
  by (simp add: fetchLiveList_def call_def Let_def split: sum.splits)

lemma refreshServer_list_error:
  assumes "fst (fetchLiveList srv token fetcher tr) = Inl err"
  shows "refreshServer srv token liveNames fetcher tr =
     (Inr \<lparr>sr_alias = srv_alias srv, sr_rooms = [], sr_success = False,
            sr_error = Some (msg_list_failed_prefix @ exn_text err)\<rparr>,
      tr @ [liveList_request srv token])"
proof -
  have "fetchLiveList srv token fetcher tr = (Inl err, tr @ [liveList_request srv token])"
    using assms snd_fetchLiveList[of srv token fetcher tr] by (simp add: prod_eq_iff)
  then show ?thesis by (simp add: refreshServer_def)
qed

lemma ex_fetch:
  "fetchLiveList ex_srv ex_token (ex_fetcher_rooms rs) [] = (Inr rs, [liveList_request ex_srv ex_token])"
  by (simp add: fetchLiveList_def call_def ex_fetcher_rooms_def ok_response_def ex_list_payload_def
      Let_def ascii_def)


text \<open>
  C1, as the code has it. When the list was fetched and some group matched, the requests
  \<^verbatim>\<open>refreshServer\<close> makes after the list request are, group by group in order, those of
  \<open>group_requests\<close>: for a group with exactly one room id the one request of
  \<^verbatim>\<open>refreshRoomCode\<close> (endpoint \<^verbatim>\<open>/api/live/refreshVerifyCode\<close>), for a group with two or
  more room ids the one request of \<^verbatim>\<open>refreshMultiRoomCode\<close> (endpoint
  \<^verbatim>\<open>/api/live/batchRefVerifyCode\<close>), for a group without any room id none, and none
  where \<^verbatim>\<open>String\<close> or \<^verbatim>\<open>join\<close> throws on the ids; the ids counted are the truthy \<^verbatim>\<open>id\<close>s
  of the matched rooms. Each group gives one outcome.
\<close>

theorem refreshServer_dispatch:
  assumes "fetchLiveList srv token fetcher tr = (Inr liveList, tr1)"
    and "filterLiveRooms liveList liveNames = Inr matched" and "matched \<noteq> []"
  shows "\<exists>result. fst (refreshServer srv token liveNames fetcher tr) = Inr result
       \<and> length (sr_rooms result) = length matched
       \<and> snd (refreshServer srv token liveNames fetcher tr)
           = tr1 @ concat (map (group_requests srv token) matched)
       \<and> (\<forall>grp \<in> set matched.
             group_requests srv token grp =
               (if length (liveIds_of grp) = 0 then []
                else if length (liveIds_of grp) = 1
                  then (case js_String (liveIds_of grp ! 0) of
                          Inl err \<Rightarrow> []
                        | Inr param \<Rightarrow> [refreshRoomCode_request srv token param])
                else (case js_join (ascii '','') (liveIds_of grp) of
                        Inl err \<Rightarrow> []
                      | Inr param \<Rightarrow> [refreshMultiRoomCode_request srv token param])))"
proof -
  have "\<And>grp. group_requests srv token grp =
               (if length (liveIds_of grp) = 0 then []
                else if length (liveIds_of grp) = 1
                  then (case js_String (liveIds_of grp ! 0) of
                          Inl err \<Rightarrow> []
                        | Inr param \<Rightarrow> [refreshRoomCode_request srv token param])
                else (case js_join (ascii '','') (liveIds_of grp) of
                        Inl err \<Rightarrow> []
                      | Inr param \<Rightarrow> [refreshMultiRoomCode_request srv token param]))"
    by (simp add: group_requests_def split: list.splits)
  then show ?thesis
    using assms by (simp add: refreshServer_matched Let_def refresh_groups_trace refresh_groups_length)
qed

text \<open>
  Two groups on the rooms Alpha (id 1) and Beta (id 2): \<^verbatim>\<open>"Alpha|Beta"\<close> goes to the
  batch endpoint once with both ids, \<^verbatim>\<open>"Beta"\<close> to the single-room endpoint.
\<close>

theorem refreshServer_dispatch_witness:
  "snd (refreshServer ex_srv ex_token [ascii ''Alpha|Beta'', ascii ''Beta'']
             (ex_fetcher_rooms [ex_room_alpha, ex_room_beta]) [])
     = [liveList_request ex_srv ex_token,
        refreshMultiRoomCode_request ex_srv ex_token (ascii ''1,2''),
        refreshRoomCode_request ex_srv ex_token (ascii ''2'')]"
proof -
  have m: "filterLiveRooms [ex_room_alpha, ex_room_beta] [ascii ''Alpha|Beta'', ascii ''Beta'']
     = Inr [\<lparr>mg_names = [ascii ''Alpha'', ascii ''Beta''], mg_rooms = [ex_room_alpha, ex_room_beta]\<rparr>,
            \<lparr>mg_names = [ascii ''Beta''], mg_rooms = [ex_room_beta]\<rparr>]"
    by (simp add: filterLiveRooms_def parseLiveNameGroups_def room_name_def js_String_def js_or_def
        ex_room_alpha_def ex_room_beta_def ascii_def bar_def trim_def isWhiteSpace_def)
  have ne: "[\<lparr>mg_names = [ascii ''Alpha'', ascii ''Beta''], mg_rooms = [ex_room_alpha, ex_room_beta]\<rparr>,
        \<lparr>mg_names = [ascii ''Beta''], mg_rooms = [ex_room_beta]\<rparr>] \<noteq> []"
    by simp
  show ?thesis
    using refreshServer_dispatch [OF ex_fetch m ne]
    by (auto simp: group_requests_def liveIds_of_def ex_room_alpha_def ex_room_beta_def ascii_def
        js_String_def js_join_def)
qed

text \<open>
  The group \<^verbatim>\<open>"Alpha|Gamma"\<close> matches two rooms, Alpha (id 1) and Gamma (no id): the
  refresh goes to the single-room endpoint, and no batch request is made.
\<close>

theorem refreshServer_two_rooms_single_call:
  "filterLiveRooms [ex_room_alpha, ex_room_gamma] [ascii ''Alpha|Gamma'']
     = Inr [\<lparr>mg_names = [ascii ''Alpha'', ascii ''Gamma''],
              mg_rooms = [ex_room_alpha, ex_room_gamma]\<rparr>]
   \<and> snd (refreshServer ex_srv ex_token [ascii ''Alpha|Gamma'']
             (ex_fetcher_rooms [ex_room_alpha, ex_room_gamma]) [])
     = [liveList_request ex_srv ex_token, refreshRoomCode_request ex_srv ex_token (ascii ''1'')]"
proof -
  have m: "filterLiveRooms [ex_room_alpha, ex_room_gamma] [ascii ''Alpha|Gamma'']
     = Inr [\<lparr>mg_names = [ascii ''Alpha'', ascii ''Gamma''],
              mg_rooms = [ex_room_alpha, ex_room_gamma]\<rparr>]"
    by (simp add: filterLiveRooms_def parseLiveNameGroups_def room_name_def js_String_def js_or_def
        ex_room_alpha_def ex_room_gamma_def ascii_def bar_def trim_def isWhiteSpace_def)
  have ids: "liveIds_of \<lparr>mg_names = [ascii ''Alpha'', ascii ''Gamma''],
                          mg_rooms = [ex_room_alpha, ex_room_gamma]\<rparr> = [JNum (ascii ''1'')]"
    by (simp add: liveIds_of_def ex_room_alpha_def ex_room_gamma_def ascii_def)
  show ?thesis
    by (simp add: m refreshServer_matched[OF ex_fetch m] Let_def refresh_groups_trace
        group_requests_def ids js_String_def)
qed










text \<open>
  C3. For every result that \<^verbatim>\<open>refreshServer\<close> returns, \<^verbatim>\<open>success\<close> is true exactly when
  its \<^verbatim>\<open>rooms\<close> are not empty and every outcome in them is successful; and when the list
  was fetched but no name group matched, the result has \<^verbatim>\<open>success\<close> false, no rooms and
  \<^verbatim>\<open>error\<close> set (to the no-room-matched text).
\<close>

theorem refreshServer_success_iff:
  "(\<forall>result. fst (refreshServer srv token liveNames fetcher tr) = Inr result \<longrightarrow>
      (sr_success result \<longleftrightarrow> sr_rooms result \<noteq> [] \<and> list_all oc_success (sr_rooms result)))
   \<and> (fetchLiveList srv token fetcher tr = (Inr liveList, tr1)
        \<and> filterLiveRooms liveList liveNames = Inr [] \<longrightarrow>
      fst (refreshServer srv token liveNames fetcher tr) =
        Inr \<lparr>sr_alias = srv_alias srv, sr_rooms = [], sr_success = False,
              sr_error = Some msg_no_match\<rparr>)"
  by (auto simp: refreshServer_def Let_def split: prod.splits sum.splits if_splits)

theorem refreshServer_success_iff_witness:
  "fst (refreshServer ex_srv ex_token [ascii ''Delta'']
          (ex_fetcher_rooms [ex_room_alpha, ex_room_beta]) []) =
     Inr \<lparr>sr_alias = srv_alias ex_srv, sr_rooms = [], sr_success = False,
           sr_error = Some msg_no_match\<rparr>
   \<and> (sr_success \<lparr>sr_alias = srv_alias ex_srv, sr_rooms = [], sr_success = False,
                    sr_error = Some msg_no_match\<rparr> \<longleftrightarrow>
        sr_rooms \<lparr>sr_alias = srv_alias ex_srv, sr_rooms = [], sr_success = False,
                   sr_error = Some msg_no_match\<rparr> \<noteq> []
        \<and> list_all oc_success (sr_rooms \<lparr>sr_alias = srv_alias ex_srv, sr_rooms = [],
                                           sr_success = False, sr_error = Some msg_no_match\<rparr>))"
proof -
  have m: "filterLiveRooms [ex_room_alpha, ex_room_beta] [ascii ''Delta''] = Inr []"
    by (simp add: filterLiveRooms_def parseLiveNameGroups_def room_name_def js_String_def js_or_def
        ex_room_alpha_def ex_room_beta_def ascii_def bar_def trim_def isWhiteSpace_def)
  show ?thesis
    using refreshServer_success_iff [of ex_srv ex_token "[ascii ''Delta'']"
        "ex_fetcher_rooms [ex_room_alpha, ex_room_beta]" "[]" "[ex_room_alpha, ex_room_beta]"
        "[liveList_request ex_srv ex_token]"] ex_fetch m
    by simp
qed

text \<open>
  C4. When the answer to the list request is not ok, or its payload has a falsy
  \<^verbatim>\<open>meta.success\<close>, or the \<^verbatim>\<open>data\<close> of its payload is not an array, \<^verbatim>\<open>refreshServer\<close>
  returns a result that has \<^verbatim>\<open>error\<close> set (the list-failure prefix followed by a
  reason), no rooms and \<^verbatim>\<open>success\<close> false, and the list request is the only request
  made.
\<close>

theorem refreshServer_list_failure:
  assumes "fetcher tr (liveList_request srv token) = Inr res"
    and "\<not> res_ok res
         \<or> (res_json res = Inr payload
            \<and> (\<not> truthy (get ''success'' (get ''meta'' payload)) \<or> \<not> isArray (get ''data'' payload)))"
  shows "\<exists>reason. refreshServer srv token liveNames fetcher tr =
     (Inr \<lparr>sr_alias = srv_alias srv, sr_rooms = [], sr_success = False,
            sr_error = Some (msg_list_failed_prefix @ reason)\<rparr>,
      tr @ [liveList_request srv token])"
proof -
  have "\<exists>err. fst (fetchLiveList srv token fetcher tr) = Inl err"
    using assms by (auto simp: fetchLiveList_def call_def Let_def split: sum.splits)
  then obtain err where "fst (fetchLiveList srv token fetcher tr) = Inl err" ..
  then have "refreshServer srv token liveNames fetcher tr =
     (Inr \<lparr>sr_alias = srv_alias srv, sr_rooms = [], sr_success = False,
            sr_error = Some (msg_list_failed_prefix @ exn_text err)\<rparr>,
      tr @ [liveList_request srv token])"
    by (rule refreshServer_list_error)
  then show ?thesis by blast
qed

theorem refreshServer_list_failure_witness:
  "refreshServer ex_srv ex_token [ascii ''Alpha''] ex_fetcher_503 [] =
     (Inr \<lparr>sr_alias = ascii ''east'', sr_rooms = [], sr_success = False,
            sr_error = Some (msg_list_failed_prefix @ ascii ''503 Service Unavailable: down'')\<rparr>,
      [liveList_request ex_srv ex_token])"
proof -
  have f: "ex_fetcher_503 [] (liveList_request ex_srv ex_token) = Inr ex_response_503"
    by (simp add: ex_fetcher_503_def)
  have n: "\<not> res_ok ex_response_503
         \<or> (res_json ex_response_503 = Inr JNull
            \<and> (\<not> truthy (get ''success'' (get ''meta'' JNull)) \<or> \<not> isArray (get ''data'' JNull)))"
    by (simp add: ex_response_503_def)
  from refreshServer_list_failure [of ex_fetcher_503 "[]" ex_srv ex_token ex_response_503 JNull
      "[ascii ''Alpha'']", OF f n]
  obtain reason where r: "refreshServer ex_srv ex_token [ascii ''Alpha''] ex_fetcher_503 [] =
     (Inr \<lparr>sr_alias = srv_alias ex_srv, sr_rooms = [], sr_success = False,
            sr_error = Some (msg_list_failed_prefix @ reason)\<rparr>,
      [] @ [liveList_request ex_srv ex_token])" ..
  have "fst (refreshServer ex_srv ex_token [ascii ''Alpha''] ex_fetcher_503 [])
      = Inr \<lparr>sr_alias = ascii ''east'', sr_rooms = [], sr_success = False,
            sr_error = Some (msg_list_failed_prefix @ ascii ''503 Service Unavailable: down'')\<rparr>"
    by (simp add: refreshServer_def fetchLiveList_def call_def ex_fetcher_503_def ex_response_503_def
        safeError_def exn_text_def new_Error_def ex_srv_def ascii_def)
  with r show ?thesis by simp
qed

section \<open>Properties of the run\<close>

lemma snd_sendNotification:
  "snd (sendNotification webhookKey r fetcher tr) = tr @ [notification_request webhookKey r]"
  by (simp add: sendNotification_def call_def Let_def split: sum.splits)

lemma notify_all_trace:
  "fst (notify_all webhookKey fetcher rs (tr, logged)) = tr @ map (notification_request webhookKey) rs"
proof (induction rs arbitrary: tr logged)
  case Nil
  show ?case by (simp add: notify_all_def)
next
  case (Cons r rs)
  obtain x tr' where s: "sendNotification webhookKey r fetcher tr = (x, tr')"
    by (cases "sendNotification webhookKey r fetcher tr")
  then have tr': "tr' = tr @ [notification_request webhookKey r]"
    using snd_sendNotification[of webhookKey r fetcher tr] by simp
  have step: "notify_all webhookKey fetcher (r # rs) (tr, logged) =
      notify_all webhookKey fetcher rs
        (tr', case x of Inl err \<Rightarrow> logged @ [(sr_alias r, err)] | Inr u \<Rightarrow> logged)"
    using s by (simp add: notify_all_def split: sum.splits)
  show ?case unfolding step Cons.IH tr' by simp
qed

lemma ex_loadConfig: "loadConfig Map.empty ex_env Map.empty = Inr ex_config"
  by (simp add: loadConfig_def getEnv_def parseList_def ex_env_def ex_config_def ex_east_def ex_west_def
      comma_def trim_def isWhiteSpace_def ascii_def Let_def upt_rec)

lemma ex_refreshAll:
  "refreshAll [ex_east, ex_west] (ascii ''secret'') [ascii ''Alpha|Beta''] ex_fetcher_down [] =
     (Inr [ex_result_down (ascii ''east''), ex_result_down (ascii ''west'')],
      [liveList_request ex_east (ascii ''secret''), liveList_request ex_west (ascii ''secret'')])"
  by (simp add: refreshAll_def refreshServer_def fetchLiveList_def call_def ex_fetcher_down_def
      ex_result_down_def exn_text_def ex_east_def ex_west_def ascii_def)

text \<open>
  C9. When the configuration loads and \<^verbatim>\<open>refreshAll\<close> returns its results, \<^verbatim>\<open>run\<close> returns
  those results and does not throw, whatever the fetcher answers to the notifications;
  and the requests made after those of \<^verbatim>\<open>refreshAll\<close> are exactly one notification
  request for each result, in the order of the results. So a notification that fails
  stops neither the later notifications nor the run.
\<close>

theorem run_notifies_every_result:
  assumes "loadConfig penv env overrides = Inr cfg"
    and "refreshAll (cfg_servers cfg) (cfg_token cfg) (cfg_liveNames cfg) fetcher tr
           = (Inr results, tr1)"
  shows "fst (run penv env overrides fetcher tr) = Inr results
       \<and> fst (snd (run penv env overrides fetcher tr))
           = tr1 @ map (notification_request (cfg_webhookKey cfg)) results"
proof -
  obtain tr2 logged where n: "notify_all (cfg_webhookKey cfg) fetcher results (tr1, []) = (tr2, logged)"
    by (cases "notify_all (cfg_webhookKey cfg) fetcher results (tr1, [])")
  then have "tr2 = tr1 @ map (notification_request (cfg_webhookKey cfg)) results"
    using notify_all_trace[of "cfg_webhookKey cfg" fetcher results tr1 "[]"] by simp
  with assms n show ?thesis by (simp add: run_def)
qed

text \<open>
  Two servers and a fetcher that rejects every request: both notifications are
  attempted, in order, both fail and are written to the console, and the run returns
  the two results.
\<close>

theorem run_notifies_every_result_witness:
  "fst (run Map.empty ex_env Map.empty ex_fetcher_down []) =
     Inr [ex_result_down (ascii ''east''), ex_result_down (ascii ''west'')]
   \<and> fst (snd (run Map.empty ex_env Map.empty ex_fetcher_down [])) =
     [liveList_request ex_east (ascii ''secret''), liveList_request ex_west (ascii ''secret''),
      notification_request (ascii ''key'') (ex_result_down (ascii ''east'')),
      notification_request (ascii ''key'') (ex_result_down (ascii ''west''))]
   \<and> snd (snd (run Map.empty ex_env Map.empty ex_fetcher_down [])) =
     [(ascii ''east'', \<lparr>ename = ascii ''TypeError'', emessage = ascii ''fetch failed''\<rparr>),
      (ascii ''west'', \<lparr>ename = ascii ''TypeError'', emessage = ascii ''fetch failed''\<rparr>)]"
proof -
  have r: "refreshAll (cfg_servers ex_config) (cfg_token ex_config) (cfg_liveNames ex_config)
             ex_fetcher_down [] =
     (Inr [ex_result_down (ascii ''east''), ex_result_down (ascii ''west'')],
      [liveList_request ex_east (ascii ''secret''), liveList_request ex_west (ascii ''secret'')])"
    using ex_refreshAll by (simp add: ex_config_def)
  have l: "snd (snd (run Map.empty ex_env Map.empty ex_fetcher_down [])) =
     [(ascii ''east'', \<lparr>ename = ascii ''TypeError'', emessage = ascii ''fetch failed''\<rparr>),
      (ascii ''west'', \<lparr>ename = ascii ''TypeError'', emessage = ascii ''fetch failed''\<rparr>)]"
    using r
    by (simp add: run_def ex_loadConfig notify_all_def sendNotification_def call_def
        ex_fetcher_down_def ex_result_down_def)
  show ?thesis
    using run_notifies_every_result [OF ex_loadConfig r] l by (simp add: ex_config_def)
qed

end
